theory Spec2Isabelle
  imports Complex_Main "HOL-Library.Word"
begin

section \<open>Numeric parsing: ParseInt and ParseFixed6Fraction\<close>

subsection \<open>Characters and machine integers\<close>

type_synonym uint8_t = "8 word"
type_synonym uint32_t = "32 word"

text \<open>The code of a character, as the C++ comparisons and the subtraction of \<open>'0'\<close> read it.\<close>

definition charCode :: "char \<Rightarrow> nat" where
  "charCode c = of_char c"

text \<open>\<open>character >= '0' && character <= '9'\<close>\<close>

definition isDigit :: "char \<Rightarrow> bool" where
  "isDigit c = (48 \<le> charCode c \<and> charCode c \<le> 57)"

subsection \<open>ParseFixed6Fraction\<close>

text \<open>
  The \<open>while\<close> loop of ParseFixed6Fraction: it stops on the empty string, after seven
  digits, or at the first character that is not a decimal digit. The state is the rest of
  the string, \<open>numDigits\<close> and the 32-bit accumulator \<open>decimalFraction\<close>;
  \<open>decimalFraction * 10 + str[0] - '0'\<close> is unsigned 32-bit arithmetic.
\<close>

fun readDigits :: "string \<Rightarrow> nat \<Rightarrow> uint32_t \<Rightarrow> string \<times> nat \<times> uint32_t" where
  "readDigits [] numDigits decimalFraction = ([], numDigits, decimalFraction)"
| "readDigits (c # str) numDigits decimalFraction =
     (if numDigits < 7 then
        (if charCode c < 48 \<or> charCode c > 57 then (c # str, numDigits, decimalFraction)
         else readDigits str (numDigits + 1) (decimalFraction * 10 + of_nat (charCode c) - 48))
      else (c # str, numDigits, decimalFraction))"

text \<open>
  The normalisation to seven decimal places. The source multiplies by
  \<open>std::pow(10U, 7U - numDigits)\<close>, a double; the power of ten and the product (below
  \<open>10^7\<close>) are integers that a double holds exactly, so the multiplication is the
  integer one.
\<close>

definition normalise :: "nat \<Rightarrow> uint32_t \<Rightarrow> uint32_t" where
  "normalise numDigits decimalFraction =
     (if numDigits < 7 then decimalFraction * 10 ^ (7 - numDigits) else decimalFraction)"

text \<open>The returned expression \<open>(decimalFraction + 78125) / 156250\<close>, in 32 bits.\<close>

definition roundFixed6 :: "uint32_t \<Rightarrow> uint32_t" where
  "roundFixed6 decimalFraction = (decimalFraction + 78125) div 156250"

text \<open>
  The function returns the \<open>uint8_t\<close> value together with the offset that
  \<open>*endOfParse\<close> is set to (all further digits are consumed as well).
\<close>

definition ParseFixed6Fraction :: "string \<Rightarrow> uint8_t \<times> nat" where
  "ParseFixed6Fraction str =
     (case readDigits str 0 0 of
        (rest, numDigits, decimalFraction) \<Rightarrow>
          (ucast (roundFixed6 (normalise numDigits decimalFraction)),
           (length str - length rest) + length (takeWhile isDigit rest)))"

subsection \<open>Decimal strings of a fixed length\<close>

text \<open>
  The seven-digit, zero-padded decimal rendering of a number, used to state the round trip
  of ParseFixed6Fraction. It is not part of the parser.
\<close>

definition digitChar :: "nat \<Rightarrow> char" where
  "digitChar d = char_of (48 + d)"

fun decimalDigits :: "nat \<Rightarrow> nat \<Rightarrow> string" where
  "decimalDigits 0 n = []"
| "decimalDigits (Suc w) n = digitChar (n div 10 ^ w mod 10) # decimalDigits w n"

definition sevenDigitString :: "nat \<Rightarrow> string" where
  "sevenDigitString n = decimalDigits 7 n"

subsection \<open>ParseInt\<close>

datatype ParseIntError = ParseError | OutOfRange

text \<open>
  ParseInt is a template over the integer type \<open>IntT\<close>. The type is a parameter of the
  model: its signedness and its width, from which \<open>std::numeric_limits\<close> follow.
  Values of the type are mathematical integers within these limits.
\<close>

record IntT =
  isSigned :: bool
  width :: nat

definition numeric_limits_min :: "IntT \<Rightarrow> int" where
  "numeric_limits_min T = (if isSigned T then - (2 ^ (width T - 1)) else 0)"

definition numeric_limits_max :: "IntT \<Rightarrow> int" where
  "numeric_limits_max T = (if isSigned T then 2 ^ (width T - 1) - 1 else 2 ^ width T - 1)"

definition IntT_uint8 :: IntT where
  "IntT_uint8 = \<lparr>isSigned = False, width = 8\<rparr>"

definition IntT_uint32 :: IntT where
  "IntT_uint32 = \<lparr>isSigned = False, width = 32\<rparr>"

definition IntT_int8 :: IntT where
  "IntT_int8 = \<lparr>isSigned = True, width = 8\<rparr>"

definition IntT_int32 :: IntT where
  "IntT_int32 = \<lparr>isSigned = True, width = 32\<rparr>"

text \<open>
  \<open>std::from_chars\<close> belongs to the C++ standard library; it is modelled after the
  standard (charconv.from.chars), base 10. The pattern is an optional \<open>'-'\<close>, accepted
  only for a signed type, followed by a non-empty maximal run of decimal digits; neither
  whitespace nor \<open>'+'\<close> is accepted. If nothing matches, \<open>ptr\<close> is the start and \<open>ec\<close> is
  \<open>invalid_argument\<close>; if the pattern matches but the value is not representable,
  \<open>ptr\<close> is the end of the match and \<open>ec\<close> is \<open>result_out_of_range\<close>; in both cases
  \<open>value\<close> is left as it was. Otherwise \<open>value\<close> is set and \<open>ec\<close> is empty.
  \<open>ptr\<close> is an offset from the start of the string. The matched pattern is described
  by \<open>patternMinus\<close> (a sign was accepted), \<open>patternDigits\<close> (the run of digits),
  \<open>patternLength\<close> and \<open>patternValue\<close>.
\<close>

datatype errc = errc_none | invalid_argument | result_out_of_range

record from_chars_result =
  ptr :: nat
  ec :: errc

definition decimalValue :: "string \<Rightarrow> int" where
  "decimalValue ds = foldl (\<lambda>acc c. acc * 10 + (int (charCode c) - 48)) 0 ds"

definition patternMinus :: "IntT \<Rightarrow> string \<Rightarrow> bool" where
  "patternMinus T str = (case str of [] \<Rightarrow> False | c # _ \<Rightarrow> isSigned T \<and> c = CHR ''-'')"

definition patternDigits :: "IntT \<Rightarrow> string \<Rightarrow> string" where
  "patternDigits T str = takeWhile isDigit (if patternMinus T str then tl str else str)"

definition patternLength :: "IntT \<Rightarrow> string \<Rightarrow> nat" where
  "patternLength T str = (if patternMinus T str then 1 else 0) + length (patternDigits T str)"

definition patternValue :: "IntT \<Rightarrow> string \<Rightarrow> int" where
  "patternValue T str =
     (if patternMinus T str then - decimalValue (patternDigits T str)
      else decimalValue (patternDigits T str))"

definition from_chars :: "IntT \<Rightarrow> string \<Rightarrow> int \<Rightarrow> from_chars_result \<times> int" where
  "from_chars T str val =
     (if patternDigits T str = [] then (\<lparr>ptr = 0, ec = invalid_argument\<rparr>, val)
      else if patternValue T str < numeric_limits_min T \<or> numeric_limits_max T < patternValue T str
        then (\<lparr>ptr = patternLength T str, ec = result_out_of_range\<rparr>, val)
      else (\<lparr>ptr = patternLength T str, ec = errc_none\<rparr>, patternValue T str))"

text \<open>
  ParseInt returns its result together with the offset stored in \<open>*endOfParse\<close>. The
  local \<open>value\<close> is uninitialised in the source; it starts as 0 here, and it is only
  compared or returned on the paths where \<open>from_chars\<close> has set it (lemma
  \<open>ParseInt_value_unread\<close> below).
\<close>

definition ParseInt :: "IntT \<Rightarrow> string \<Rightarrow> int \<Rightarrow> int \<Rightarrow> (ParseIntError + int) \<times> nat" where
  "ParseInt T str mn mx =
     (case from_chars T str 0 of
        (result, val) \<Rightarrow>
          (if ec result = invalid_argument then Inl ParseError
           else if ec result = result_out_of_range \<or> val < mn \<or> val > mx then Inl OutOfRange
           else if ec result \<noteq> errc_none then Inl ParseError
           else Inr val,
           ptr result))"

text \<open>
  The whitespace characters of the C locale (space, tab, line feed, vertical tab, form
  feed, carriage return), used to state that ParseInt does not skip them.
\<close>

definition whitespace :: "char list" where
  "whitespace = [CHR '' '', CHR 0x09, CHR 0x0A, CHR 0x0B, CHR 0x0C, CHR 0x0D]"

section \<open>Player data tables (playerdat.cpp)\<close>

subsection \<open>ExperienceData\<close>

record ExperienceData =
  levelThresholds :: "uint32_t list"

definition getMaxLevel :: "ExperienceData \<Rightarrow> uint8_t" where
  "getMaxLevel ed = of_nat (min (length (levelThresholds ed)) 255)"

definition clear :: "ExperienceData \<Rightarrow> ExperienceData" where
  "clear ed = ed\<lparr>levelThresholds := []\<rparr>"

text \<open>
  \<open>levelThresholds[i]\<close> on a \<open>std::vector\<close> is only defined for \<open>i < size()\<close>; an index
  past the end is the error \<open>OutOfBounds\<close> here. \<open>thresholdIndex\<close> is the index
  expression \<open>std::min<unsigned>(level - 1, getMaxLevel())\<close>, in unsigned 32-bit arithmetic.
\<close>

datatype VectorError = OutOfBounds

definition thresholdIndex :: "ExperienceData \<Rightarrow> uint32_t \<Rightarrow> nat" where
  "thresholdIndex ed level = unat (min (level - 1) (ucast (getMaxLevel ed)))"

definition getThresholdForLevel :: "ExperienceData \<Rightarrow> uint32_t \<Rightarrow> VectorError + uint32_t" where
  "getThresholdForLevel ed level =
     (if level > 0 then
        (if thresholdIndex ed level < length (levelThresholds ed)
         then Inr (levelThresholds ed ! thresholdIndex ed level)
         else Inl OutOfBounds)
      else Inr 0)"

text \<open>
  After the \<open>resize\<close> the vector has at least \<open>level\<close> elements, so the write at
  \<open>level - 1\<close> is in bounds.
\<close>

definition setThresholdForLevel :: "ExperienceData \<Rightarrow> uint32_t \<Rightarrow> uint32_t \<Rightarrow> ExperienceData" where
  "setThresholdForLevel ed level experience =
     (if level > 0 then
        (let resized =
               (if unat level > length (levelThresholds ed)
                then levelThresholds ed @
                     replicate (unat level - length (levelThresholds ed)) (0xFFFFFFFF :: uint32_t)
                else levelThresholds ed)
         in ed\<lparr>levelThresholds := resized[unat (level - 1) := experience]\<rparr>)
      else ed)"

subsection \<open>Data files, records and fields\<close>

text \<open>
  Modelled from the spec: the declarations of \<open>DataFile\<close>, \<open>DataFileRecord\<close>,
  \<open>FieldIterator\<close>, \<open>DataFileField\<close> and \<open>ColumnDefinition\<close> (data/file.hpp) are not
  among the sources. A record is the list of its fields, a field is its raw text. A
  \<open>FieldIterator\<close> is the list of the fields not yet passed: \<open>record.begin()\<close> is the whole
  record, \<open>record.end()\<close> is the empty list, \<open>fieldIt += n\<close> drops \<open>n\<close> fields and stops at
  the end, \<open>++fieldIt\<close> drops one, and \<open>*fieldIt\<close> is the first remaining field. A
  \<open>ColumnDefinition\<close> holds the schema column it converts to and its \<open>skipLength\<close>.
\<close>

type_synonym DataFileField = string
type_synonym DataFileRecord = "DataFileField list"
type_synonym FieldIterator = "DataFileField list"

record 'c ColumnDefinition =
  column :: 'c
  skipLength :: nat

datatype DataFile_Error = OpenFailed | NotEnoughColumns

datatype DataFileField_Error = InvalidValue

text \<open>
  \<open>DataFile::reportFatalError\<close> and \<open>DataFile::reportFatalFieldError\<close> end the process;
  a call is the error value of the enclosing function, with the arguments of the call.
  The latter is called with the error of an integer parse or with a \<open>DataFileField::Error\<close>.
\<close>

datatype FatalError =
  reportFatalError DataFile_Error string
| reportFatalFieldError "ParseIntError + DataFileField_Error" string string DataFileField

text \<open>
  Modelled from the spec: \<open>DataFileField::parseInt\<close> (data/file.hpp) is not among the
  sources. It delegates to ParseInt over the whole text of the field with the limits of
  the destination type, and fails if the literal does not end the field; the spec
  leaves open with which of the two errors, and it is ParseError here.
\<close>

definition parseInt :: "IntT \<Rightarrow> DataFileField \<Rightarrow> ParseIntError + int" where
  "parseInt T field =
     (case ParseInt T field (numeric_limits_min T) (numeric_limits_max T) of
        (Inl e, endOfParse) \<Rightarrow> Inl e
      | (Inr v, endOfParse) \<Rightarrow>
          if endOfParse = length field then Inr v else Inl ParseError)"

text \<open>
  The loop \<open>for (auto &column : columns)\<close> over one record is the same in
  ReloadExperienceData and ReloadPlayerData but for the \<open>switch\<close>. Here the \<open>switch\<close> is
  the parameter \<open>switchColumn\<close>: from the column, the field and the local variables it
  gives a fatal error, or the new local variables and \<open>skipRecord\<close>. The loop returns
  the local variables and \<open>skipRecord\<close> as they are when it ends.
\<close>

fun forColumns ::
  "('c \<Rightarrow> DataFileField \<Rightarrow> 's \<Rightarrow> FatalError + 's \<times> bool) \<Rightarrow> string \<Rightarrow>
   'c ColumnDefinition list \<Rightarrow> FieldIterator \<Rightarrow> 's \<Rightarrow> FatalError + 's \<times> bool" where
  "forColumns switchColumn filename [] fieldIt locals = Inr (locals, False)"
| "forColumns switchColumn filename (col # columns) fieldIt locals =
     (let fieldIt = drop (skipLength col) fieldIt in
      if fieldIt = [] then Inl (reportFatalError NotEnoughColumns filename)
      else
        (case switchColumn (column col) (hd fieldIt) locals of
           Inl fatal \<Rightarrow> Inl fatal
         | Inr (locals, skipRecord) \<Rightarrow>
             if skipRecord then Inr (locals, True)
             else forColumns switchColumn filename columns (tl fieldIt) locals))"

subsection \<open>ReloadExperienceData\<close>

datatype ExperienceColumn = Level | Experience

definition Experience_tsv :: string where
  "Experience_tsv = ''txtdata'' @ [CHR 0x5C] @ ''Experience.tsv''"

text \<open>
  The \<open>switch\<close> of ReloadExperienceData; the local variables are \<open>level\<close> (a \<open>uint8_t\<close>)
  and \<open>experience\<close> (a \<open>uint32_t\<close>). Its \<open>default\<close> branch does nothing and is not
  reached for a column of the enumeration.
\<close>

fun switchExperienceColumn ::
  "ExperienceColumn \<Rightarrow> DataFileField \<Rightarrow> int \<times> int \<Rightarrow> FatalError + (int \<times> int) \<times> bool" where
  "switchExperienceColumn Level field (level, experience) =
     (case parseInt IntT_uint8 field of
        Inr v \<Rightarrow> Inr ((v, experience), False)
      | Inl e \<Rightarrow>
          if field = ''MaxLevel'' then Inr ((level, experience), True)
          else Inl (reportFatalFieldError (Inl e) Experience_tsv ''Level'' field))"
| "switchExperienceColumn Experience field (level, experience) =
     (case parseInt IntT_uint32 field of
        Inr v \<Rightarrow> Inr ((level, v), False)
      | Inl e \<Rightarrow> Inl (reportFatalFieldError (Inl e) Experience_tsv ''Experience'' field))"

text \<open>The loop \<open>for (DataFileRecord record : dataFile)\<close>, on the global \<open>ExperienceData\<close>.\<close>

fun loadExperienceRecords ::
  "ExperienceColumn ColumnDefinition list \<Rightarrow> DataFileRecord list \<Rightarrow> ExperienceData \<Rightarrow>
   FatalError + ExperienceData" where
  "loadExperienceRecords columns [] ed = Inr ed"
| "loadExperienceRecords columns (record # records) ed =
     (case forColumns switchExperienceColumn Experience_tsv columns record (0, 0) of
        Inl fatal \<Rightarrow> Inl fatal
      | Inr ((level, experience), skipRecord) \<Rightarrow>
          loadExperienceRecords columns records
            (if \<not> skipRecord then setThresholdForLevel ed (of_int level) (of_int experience)
             else ed))"

text \<open>
  Modelled from the spec: \<open>DataFile::load\<close> and \<open>DataFile::parseHeader\<close> (data/file.hpp)
  are not among the sources. Their results are parameters: the data records of the file
  or the error of \<open>load\<close>, and the column definitions of the header, in the physical
  order of the header, or the error of \<open>parseHeader\<close>.
\<close>

definition ReloadExperienceData ::
  "DataFile_Error + DataFileRecord list \<Rightarrow>
   DataFile_Error + ExperienceColumn ColumnDefinition list \<Rightarrow>
   ExperienceData \<Rightarrow> FatalError + ExperienceData" where
  "ReloadExperienceData dataFileResult parseHeaderResult ed =
     (case dataFileResult of
        Inl e \<Rightarrow> Inl (reportFatalError e Experience_tsv)
      | Inr dataFile \<Rightarrow>
          (case parseHeaderResult of
             Inl e \<Rightarrow> Inl (reportFatalError e Experience_tsv)
           | Inr columns \<Rightarrow> loadExperienceRecords columns dataFile (clear ed)))"

subsection \<open>ReloadPlayerData\<close>

datatype HeroClass = Warrior | Rogue | Sorcerer | Monk | Bard | Barbarian

datatype PlayerDataColumn =
  Class | BaseStrength | BaseMagic | BaseDexterity | BaseVitality
| MaximumStrength | MaximumMagic | MaximumDexterity | MaximumVitality
| LifeAdjustment | ManaAdjustment | LifePerLevel | ManaPerLevel
| LifePerStat | ManaPerStat | LifeItemBonus | ManaItemBonus

text \<open>
  Modelled from the spec: the declaration of \<open>PlayerData\<close> (playerdat.hpp) and
  \<open>DataFileField::parseFixed6\<close> (data/file.hpp) are not among the sources. The members
  that ReloadPlayerData assigns hold integers (the fixed-point members their raw value);
  the parser of the integer members and the parser of the fixed-point members are the
  parameters \<open>parseStat\<close> and \<open>parseFixed6\<close> of the \<open>switch\<close>.
\<close>

record PlayerData =
  className :: string
  baseStr :: int
  baseMag :: int
  baseDex :: int
  baseVit :: int
  maxStr :: int
  maxMag :: int
  maxDex :: int
  maxVit :: int
  adjLife :: int
  adjMana :: int
  lvlLife :: int
  lvlMana :: int
  chrLife :: int
  chrMana :: int
  itmLife :: int
  itmMana :: int

definition CharStats_tsv :: string where
  "CharStats_tsv = ''txtdata'' @ [CHR 0x5C] @ ''CharStats.tsv''"

text \<open>
  The pattern of every numeric \<open>case\<close>: store the parsed value, or report the error of
  the parser with the name of the column and the field.
\<close>

definition storeOrFatal ::
  "ParseIntError + int \<Rightarrow> string \<Rightarrow> string \<Rightarrow> DataFileField \<Rightarrow> (int \<Rightarrow> 's) \<Rightarrow>
   FatalError + 's \<times> bool" where
  "storeOrFatal parseIntResult filename name field store =
     (case parseIntResult of
        Inr v \<Rightarrow> Inr (store v, False)
      | Inl e \<Rightarrow> Inl (reportFatalFieldError (Inl e) filename name field))"

text \<open>
  The \<open>switch\<close> of ReloadPlayerData; the local variables are \<open>clazz\<close>, where \<open>None\<close> is
  its initial \<open>static_cast<HeroClass>(-1)\<close>, and \<open>characterStats\<close>.
\<close>

fun switchPlayerDataColumn ::
  "(DataFileField \<Rightarrow> ParseIntError + int) \<Rightarrow> (DataFileField \<Rightarrow> ParseIntError + int) \<Rightarrow>
   PlayerDataColumn \<Rightarrow> DataFileField \<Rightarrow> HeroClass option \<times> PlayerData \<Rightarrow>
   FatalError + (HeroClass option \<times> PlayerData) \<times> bool" where
  "switchPlayerDataColumn parseStat parseFixed6 Class field (clazz, characterStats) =
     (if field = ''Warrior''
        then Inr ((Some Warrior, characterStats\<lparr>className := ''Warrior''\<rparr>), False)
      else if field = ''Rogue''
        then Inr ((Some Rogue, characterStats\<lparr>className := ''Rogue''\<rparr>), False)
      else if field = ''Sorcerer''
        then Inr ((Some Sorcerer, characterStats\<lparr>className := ''Sorcerer''\<rparr>), False)
      else if field = ''Monk''
        then Inr ((Some Monk, characterStats\<lparr>className := ''Monk''\<rparr>), False)
      else if field = ''Bard''
        then Inr ((Some Bard, characterStats\<lparr>className := ''Bard''\<rparr>), False)
      else if field = ''Barbarian''
        then Inr ((Some Barbarian, characterStats\<lparr>className := ''Barbarian''\<rparr>), False)
      else if field = ''Expansion''
        then Inr ((clazz, characterStats), True)
      else Inl (reportFatalFieldError (Inr InvalidValue) CharStats_tsv ''Class'' field))"
| "switchPlayerDataColumn parseStat parseFixed6 BaseStrength field (clazz, characterStats) =
     storeOrFatal (parseStat field) CharStats_tsv ''Base Strength'' field
       (\<lambda>v. (clazz, characterStats\<lparr>baseStr := v\<rparr>))"
| "switchPlayerDataColumn parseStat parseFixed6 BaseMagic field (clazz, characterStats) =
     storeOrFatal (parseStat field) CharStats_tsv ''Base Magic'' field
       (\<lambda>v. (clazz, characterStats\<lparr>baseMag := v\<rparr>))"
| "switchPlayerDataColumn parseStat parseFixed6 BaseDexterity field (clazz, characterStats) =
     storeOrFatal (parseStat field) CharStats_tsv ''Base Dexterity'' field
       (\<lambda>v. (clazz, characterStats\<lparr>baseDex := v\<rparr>))"
| "switchPlayerDataColumn parseStat parseFixed6 BaseVitality field (clazz, characterStats) =
     storeOrFatal (parseStat field) CharStats_tsv ''Base Vitality'' field
       (\<lambda>v. (clazz, characterStats\<lparr>baseVit := v\<rparr>))"
| "switchPlayerDataColumn parseStat parseFixed6 MaximumStrength field (clazz, characterStats) =
     storeOrFatal (parseStat field) CharStats_tsv ''Maximum Strength'' field
       (\<lambda>v. (clazz, characterStats\<lparr>maxStr := v\<rparr>))"
| "switchPlayerDataColumn parseStat parseFixed6 MaximumMagic field (clazz, characterStats) =
     storeOrFatal (parseStat field) CharStats_tsv ''Maximum Magic'' field
       (\<lambda>v. (clazz, characterStats\<lparr>maxMag := v\<rparr>))"
| "switchPlayerDataColumn parseStat parseFixed6 MaximumDexterity field (clazz, characterStats) =
     storeOrFatal (parseStat field) CharStats_tsv ''Maximum Dexterity'' field
       (\<lambda>v. (clazz, characterStats\<lparr>maxDex := v\<rparr>))"
| "switchPlayerDataColumn parseStat parseFixed6 MaximumVitality field (clazz, characterStats) =
     storeOrFatal (parseStat field) CharStats_tsv ''Maximum Vitality'' field
       (\<lambda>v. (clazz, characterStats\<lparr>maxVit := v\<rparr>))"
| "switchPlayerDataColumn parseStat parseFixed6 LifeAdjustment field (clazz, characterStats) =
     storeOrFatal (parseFixed6 field) CharStats_tsv ''Base Life'' field
       (\<lambda>v. (clazz, characterStats\<lparr>adjLife := v\<rparr>))"
| "switchPlayerDataColumn parseStat parseFixed6 ManaAdjustment field (clazz, characterStats) =
     storeOrFatal (parseFixed6 field) CharStats_tsv ''Base Mana'' field
       (\<lambda>v. (clazz, characterStats\<lparr>adjMana := v\<rparr>))"
| "switchPlayerDataColumn parseStat parseFixed6 LifePerLevel field (clazz, characterStats) =
     storeOrFatal (parseFixed6 field) CharStats_tsv ''Life Per Level'' field
       (\<lambda>v. (clazz, characterStats\<lparr>lvlLife := v\<rparr>))"
| "switchPlayerDataColumn parseStat parseFixed6 ManaPerLevel field (clazz, characterStats) =
     storeOrFatal (parseFixed6 field) CharStats_tsv ''Mana Per Level'' field
       (\<lambda>v. (clazz, characterStats\<lparr>lvlMana := v\<rparr>))"
| "switchPlayerDataColumn parseStat parseFixed6 LifePerStat field (clazz, characterStats) =
     storeOrFatal (parseFixed6 field) CharStats_tsv ''Life Per Player Stat'' field
       (\<lambda>v. (clazz, characterStats\<lparr>chrLife := v\<rparr>))"
| "switchPlayerDataColumn parseStat parseFixed6 ManaPerStat field (clazz, characterStats) =
     storeOrFatal (parseFixed6 field) CharStats_tsv ''Mana Per Player Stat'' field
       (\<lambda>v. (clazz, characterStats\<lparr>chrMana := v\<rparr>))"
| "switchPlayerDataColumn parseStat parseFixed6 LifeItemBonus field (clazz, characterStats) =
     storeOrFatal (parseFixed6 field) CharStats_tsv ''Life Per Item Stat'' field
       (\<lambda>v. (clazz, characterStats\<lparr>itmLife := v\<rparr>))"
| "switchPlayerDataColumn parseStat parseFixed6 ManaItemBonus field (clazz, characterStats) =
     storeOrFatal (parseFixed6 field) CharStats_tsv ''Mana Per Item Stat'' field
       (\<lambda>v. (clazz, characterStats\<lparr>itmMana := v\<rparr>))"

text \<open>\<open>PlayerData characterStats {}\<close>: every member is zero, the name is empty.\<close>

definition emptyPlayerData :: PlayerData where
  "emptyPlayerData =
     \<lparr>className = [], baseStr = 0, baseMag = 0, baseDex = 0, baseVit = 0,
      maxStr = 0, maxMag = 0, maxDex = 0, maxVit = 0, adjLife = 0, adjMana = 0,
      lvlLife = 0, lvlMana = 0, chrLife = 0, chrMana = 0, itmLife = 0, itmMana = 0\<rparr>"

text \<open>The body of the loop over the records of ReloadPlayerData, up to the end of the
  loop over the columns.\<close>

definition playerDataRecord ::
  "(DataFileField \<Rightarrow> ParseIntError + int) \<Rightarrow> (DataFileField \<Rightarrow> ParseIntError + int) \<Rightarrow>
   PlayerDataColumn ColumnDefinition list \<Rightarrow> DataFileRecord \<Rightarrow>
   FatalError + (HeroClass option \<times> PlayerData) \<times> bool" where
  "playerDataRecord parseStat parseFixed6 columns record =
     forColumns (switchPlayerDataColumn parseStat parseFixed6) CharStats_tsv columns record
       (None, emptyPlayerData)"

text \<open>
  The number of fields that the iterator has passed once the columns \<open>columns\<close> have
  been read: for each of them its \<open>skipLength\<close> and the field itself.
\<close>

definition fieldsPassed :: "'c ColumnDefinition list \<Rightarrow> nat" where
  "fieldsPassed columns = sum_list (map (\<lambda>col. skipLength col + 1) columns)"

section \<open>Properties of ParseFixed6Fraction\<close>

subsection \<open>The accumulator stays below \<open>10^7\<close>\<close>

lemma unat_step:
  assumes "unat d < 10 ^ 6" and "48 \<le> k" and "k \<le> 57"
  shows "unat (d * 10 + of_nat k - 48 :: uint32_t) = unat d * 10 + (k - 48)"
proof (rule of_nat_inverse)
  show "(of_nat (unat d * 10 + (k - 48)) :: uint32_t) = d * 10 + of_nat k - 48"
    using assms(2) by (simp add: of_nat_diff)
  show "unat d * 10 + (k - 48) < 2 ^ LENGTH(32)"
    using assms by simp
qed

lemma readDigits_bound:
  "numDigits \<le> 7 \<Longrightarrow> unat d < 10 ^ numDigits \<Longrightarrow> readDigits str numDigits d = (rest, n', d')
   \<Longrightarrow> n' \<le> 7 \<and> unat d' < 10 ^ n'"
proof (induction str arbitrary: numDigits d)
  case Nil
  then show ?case by simp
next
  case (Cons c str)
  show ?case
  proof (cases "numDigits < 7 \<and> \<not> (charCode c < 48 \<or> charCode c > 57)")
    case True
    let ?d = "d * 10 + of_nat (charCode c) - 48"
    have "(10::nat) ^ numDigits \<le> 10 ^ 6"
      using True by (intro power_increasing) auto
    then have d6: "unat d < 10 ^ 6" using Cons.prems(2) by linarith
    have u: "unat ?d = unat d * 10 + (charCode c - 48)"
      using True d6 by (intro unat_step) auto
    have "unat ?d < 10 ^ (numDigits + 1)"
    proof -
      have "unat d * 10 + 10 \<le> 10 * 10 ^ numDigits"
        using Cons.prems(2) by linarith
      then have "unat ?d < 10 * 10 ^ numDigits"
        using u True by linarith
      then show ?thesis by simp
    qed
    moreover have "readDigits str (numDigits + 1) ?d = (rest, n', d')"
      using Cons.prems(3) True by simp
    moreover have "numDigits + 1 \<le> 7" using True by simp
    ultimately show ?thesis using Cons.IH by blast
  next
    case False
    then show ?thesis using Cons.prems by (auto split: if_splits)
  qed
qed

lemma normalise_bound:
  assumes "n \<le> 7" and "unat d < 10 ^ n"
  shows "unat (normalise n d) < 10 ^ 7"
proof (cases "n < 7")
  case True
  have "unat d * 10 ^ (7 - n) < 10 ^ n * 10 ^ (7 - n)"
    using assms(2) by simp
  also have "\<dots> = (10::nat) ^ 7"
    using assms(1) by (simp flip: power_add)
  finally have lt: "unat d * 10 ^ (7 - n) < 10 ^ 7" .
  have "unat (d * 10 ^ (7 - n)) = unat d * 10 ^ (7 - n)"
  proof (rule of_nat_inverse)
    show "(of_nat (unat d * 10 ^ (7 - n)) :: uint32_t) = d * 10 ^ (7 - n)"
      by simp
    show "unat d * 10 ^ (7 - n) < 2 ^ LENGTH(32)"
      using lt by simp
  qed
  then show ?thesis using True lt by (simp add: normalise_def)
next
  case False
  then show ?thesis using assms by (simp add: normalise_def)
qed

lemma roundFixed6_unat:
  assumes "unat d < 10 ^ 7"
  shows "unat (roundFixed6 d) = (unat d + 78125) div 156250"
proof -
  have "unat (d + 78125) = unat d + 78125"
  proof (rule of_nat_inverse)
    show "(of_nat (unat d + 78125) :: uint32_t) = d + 78125" by simp
    show "unat d + 78125 < 2 ^ LENGTH(32)" using assms by simp
  qed
  then show ?thesis
    by (simp add: roundFixed6_def unat_div)
qed

lemma ucast_small:
  assumes "unat (w :: uint32_t) < 256"
  shows "unat (ucast w :: uint8_t) = unat w"
  using assms by (simp add: unsigned_ucast_eq take_bit_nat_eq_self)

subsection \<open>Reading a fixed-length decimal string\<close>

lemma charCode_digitChar: "d < 10 \<Longrightarrow> charCode (digitChar d) = 48 + d"
  by (simp add: charCode_def digitChar_def)

lemma readDigits_decimalDigits:
  "numDigits + w \<le> 7 \<Longrightarrow>
   readDigits (decimalDigits w n @ rest) numDigits acc =
   readDigits rest (numDigits + w) (acc * 10 ^ w + of_nat (n mod 10 ^ w))"
proof (induction w arbitrary: numDigits acc)
  case 0
  then show ?case by simp
next
  case (Suc w)
  let ?q = "n div 10 ^ w mod 10"
  have q: "charCode (digitChar ?q) = 48 + ?q"
    by (rule charCode_digitChar) simp
  have "n mod (10 ^ w * 10) = 10 ^ w * ?q + n mod 10 ^ w"
    by (rule mod_mult2_eq)
  then have split: "n mod 10 ^ Suc w = ?q * 10 ^ w + n mod 10 ^ w"
    by (simp only: power_Suc mult.commute)
  have "readDigits (decimalDigits (Suc w) n @ rest) numDigits acc =
        readDigits (decimalDigits w n @ rest) (numDigits + 1) (acc * 10 + of_nat ?q)"
  proof -
    have "\<not> 9 < ?q" by (simp add: not_less Suc_le_eq flip: less_Suc_eq_le)
    then show ?thesis using Suc.prems q by simp
  qed
  also have "\<dots> = readDigits rest (numDigits + 1 + w)
                     ((acc * 10 + of_nat ?q) * 10 ^ w + of_nat (n mod 10 ^ w))"
    using Suc.prems by (intro Suc.IH) simp
  also have "(acc * 10 + of_nat ?q) * 10 ^ w + of_nat (n mod 10 ^ w) =
             acc * 10 ^ Suc w + (of_nat (n mod 10 ^ Suc w) :: uint32_t)"
    unfolding split by (simp add: algebra_simps)
  finally show ?case by simp
qed

lemma readDigits_sevenDigitString:
  "n < 10 ^ 7 \<Longrightarrow> readDigits (sevenDigitString n) 0 0 = ([], 7, of_nat n)"
  using readDigits_decimalDigits [of 0 7 n "[]" 0]
  by (simp add: sevenDigitString_def)

lemmas ParseFixed6Fraction_eval =
  ParseFixed6Fraction_def charCode_def roundFixed6_def normalise_def isDigit_def

subsection \<open>Range of the result\<close>

text \<open>
  Claim C1, as the code has it. For every input string ParseFixed6Fraction returns a value
  in the range 0..64: the accumulated fraction is at most 9999999 and
  \<open>(9999999 + 78125) div 156250 = 64\<close>, with no clamp to 63. \<open>"0"\<close> gives 0, and
  \<open>"9999999"\<close> (0.9999999 is nearer to 64/64 than to 63/64) gives 64.
\<close>

theorem ParseFixed6Fraction_range_64:
  "unat (fst (ParseFixed6Fraction str)) \<le> 64
   \<and> ParseFixed6Fraction ''0'' = (0, 1)
   \<and> ParseFixed6Fraction ''9999999'' = (64, 7)"
proof -
  obtain rest n d where r: "readDigits str 0 0 = (rest, n, d)"
    by (cases "readDigits str 0 0") auto
  have "n \<le> 7 \<and> unat d < 10 ^ n"
    using readDigits_bound [OF _ _ r] by simp
  then have nb: "unat (normalise n d) < 10 ^ 7"
    using normalise_bound by blast
  then have u: "unat (roundFixed6 (normalise n d)) = (unat (normalise n d) + 78125) div 156250"
    by (rule roundFixed6_unat)
  have "(unat (normalise n d) + 78125) div 156250 \<le> 64"
    using nb by simp
  then have le: "unat (roundFixed6 (normalise n d)) \<le> 64"
    using u by simp
  then have "unat (ucast (roundFixed6 (normalise n d)) :: uint8_t) \<le> 64"
    by (simp add: ucast_small)
  then have "unat (fst (ParseFixed6Fraction str)) \<le> 64"
    by (simp add: ParseFixed6Fraction_def r)
  moreover have "ParseFixed6Fraction ''0'' = (0, 1)"
    by (simp add: ParseFixed6Fraction_eval)
  moreover have "ParseFixed6Fraction ''9999999'' = (64, 7)"
    by (simp add: ParseFixed6Fraction_eval)
  ultimately show ?thesis by blast
qed

text \<open>
  Claim C1 as stated fails: on \<open>"9999999"\<close> the result is 64, outside 0..63.
\<close>

theorem ParseFixed6Fraction_9999999_overflows:
  "fst (ParseFixed6Fraction ''9999999'') = 64
   \<and> \<not> unat (fst (ParseFixed6Fraction ''9999999'')) \<le> 63"
  by (simp add: ParseFixed6Fraction_eval)

subsection \<open>Rounding\<close>

text \<open>
  Claim C5. For every accumulated seven-digit fraction \<open>d\<close> in 0..9999999, the truncating
  expression \<open>(d + 78125) / 156250\<close> is the rounding of \<open>64 * d / 10000000\<close> to the
  nearest integer, a tie going up: it is \<open>round\<close> of that quotient (\<open>round x\<close> is
  \<open>\<lfloor>x + 1/2\<rfloor>\<close>), that is the one integer \<open>r\<close> with \<open>r - 1/2 \<le> x < r + 1/2\<close>.
\<close>

theorem roundFixed6_nearest:
  assumes "unat d \<le> 9999999"
  shows "int (unat (roundFixed6 d)) = round (64 * real (unat d) / 10000000)
         \<and> real (unat (roundFixed6 d)) - 1 / 2 \<le> 64 * real (unat d) / 10000000
         \<and> 64 * real (unat d) / 10000000 < real (unat (roundFixed6 d)) + 1 / 2"
proof -
  let ?x = "64 * real (unat d) / 10000000"
  have "unat d < 10 ^ 7" using assms by simp
  then have u: "unat (roundFixed6 d) = (unat d + 78125) div 156250"
    by (rule roundFixed6_unat)
  have "?x + 1 / 2 = real (unat d + 78125) / real 156250"
    by simp
  then have "round ?x = \<lfloor>real (unat d + 78125) / real 156250\<rfloor>"
    unfolding round_def by presburger
  also have "\<dots> = int ((unat d + 78125) div 156250)"
    by (rule floor_divide_of_nat_eq)
  finally have r: "int (unat (roundFixed6 d)) = round ?x" using u by simp
  have "real_of_int (round ?x) \<le> ?x + 1 / 2" and "?x + 1 / 2 < real_of_int (round ?x) + 1"
    unfolding round_def by linarith+
  then have "real (unat (roundFixed6 d)) \<le> ?x + 1 / 2"
    and "?x + 1 / 2 < real (unat (roundFixed6 d)) + 1"
    unfolding r [symmetric] by simp_all
  then show ?thesis using r by linarith
qed

text \<open>Claim C5 at the tie \<open>d = 78125\<close>, where \<open>64 * d / 10000000 = 1/2\<close> and the result is 1.\<close>

theorem roundFixed6_nearest_witness:
  "unat (78125 :: uint32_t) \<le> 9999999
   \<and> int (unat (roundFixed6 78125)) = round (64 * real (unat (78125 :: uint32_t)) / 10000000)
   \<and> unat (roundFixed6 78125) = 1"
proof -
  have h: "unat (78125 :: uint32_t) \<le> 9999999" by simp
  have "unat (roundFixed6 78125) = 1" by (simp add: roundFixed6_def)
  then show ?thesis using h roundFixed6_nearest [OF h] by blast
qed

subsection \<open>Trailing zeros and noise in the last place\<close>

text \<open>
  Claim C6. \<open>"5"\<close>, \<open>"50"\<close>, \<open>"5000000"\<close> and \<open>"5000001"\<close> all parse to the same 6-bit
  value, 32.
\<close>

theorem ParseFixed6Fraction_trailing_zero_invariance:
  "fst (ParseFixed6Fraction ''5'') = 32 \<and> fst (ParseFixed6Fraction ''50'') = 32
   \<and> fst (ParseFixed6Fraction ''5000000'') = 32 \<and> fst (ParseFixed6Fraction ''5000001'') = 32"
  by (simp add: ParseFixed6Fraction_eval)

subsection \<open>Round trip\<close>

text \<open>
  Claim C7. For every \<open>k\<close> in 0..63, writing \<open>round (k / 64 * 10000000)\<close> as a seven-digit
  decimal string and parsing it with ParseFixed6Fraction gives \<open>k\<close> back.
\<close>

theorem ParseFixed6Fraction_round_trip:
  assumes "k \<le> 63"
  shows "unat (fst (ParseFixed6Fraction
           (sevenDigitString (nat (round (real k / 64 * 10000000)))))) = k"
proof -
  let ?n = "k * 156250"
  have "real k / 64 * 10000000 = real ?n" by simp
  then have "round (real k / 64 * 10000000) = int ?n"
    by (simp only: round_of_nat)
  then have n: "nat (round (real k / 64 * 10000000)) = ?n" by simp
  have lt: "?n < 10 ^ 7" using assms by simp
  then have rd: "readDigits (sevenDigitString ?n) 0 0 = ([], 7, of_nat ?n)"
    by (rule readDigits_sevenDigitString)
  have un: "unat (of_nat ?n :: uint32_t) = ?n"
    by (rule of_nat_inverse [OF refl]) (use lt in simp)
  then have "unat (roundFixed6 (of_nat ?n)) = (?n + 78125) div 156250"
    using lt roundFixed6_unat [of "of_nat ?n"] by simp
  also have "\<dots> = k" by simp
  finally have rk: "unat (roundFixed6 (of_nat ?n)) = k" .
  then have "unat (ucast (roundFixed6 (of_nat ?n)) :: uint8_t) = k"
    using assms by (simp add: ucast_small)
  then show ?thesis
    unfolding n by (simp add: ParseFixed6Fraction_def rd normalise_def del: of_nat_mult)
qed

text \<open>Claim C7 at \<open>k = 37\<close>.\<close>

theorem ParseFixed6Fraction_round_trip_witness:
  "(37 :: nat) \<le> 63
   \<and> unat (fst (ParseFixed6Fraction
        (sevenDigitString (nat (round (real (37 :: nat) / 64 * 10000000)))))) = 37"
proof -
  have h: "(37 :: nat) \<le> 63" by simp
  show ?thesis using h ParseFixed6Fraction_round_trip [OF h] by blast
qed

section \<open>Properties of ParseInt\<close>

subsection \<open>The branches of ParseInt\<close>

lemmas ParseInt_eval =
  ParseInt_def from_chars_def patternMinus_def patternDigits_def patternLength_def
  patternValue_def decimalValue_def isDigit_def charCode_def
  numeric_limits_min_def numeric_limits_max_def
  IntT_uint8_def IntT_uint32_def IntT_int8_def IntT_int32_def

lemma ParseInt_value_unread:
  "(case from_chars T str v0 of
      (result, val) \<Rightarrow>
        (if ec result = invalid_argument then Inl ParseError
         else if ec result = result_out_of_range \<or> val < mn \<or> val > mx then Inl OutOfRange
         else if ec result \<noteq> errc_none then Inl ParseError
         else Inr val,
         ptr result)) = ParseInt T str mn mx"
  by (simp add: ParseInt_def from_chars_def)

lemma ParseInt_cases:
  "ParseInt T str mn mx =
     (if patternDigits T str = [] then (Inl ParseError, 0)
      else if patternValue T str < numeric_limits_min T \<or> numeric_limits_max T < patternValue T str
              \<or> patternValue T str < mn \<or> mx < patternValue T str
        then (Inl OutOfRange, patternLength T str)
      else (Inr (patternValue T str), patternLength T str))"
  by (simp add: ParseInt_def from_chars_def)

lemma takeWhile_digits:
  assumes "\<forall>c\<in>set ds. isDigit c" and "rest = [] \<or> \<not> isDigit (hd rest)"
  shows "takeWhile isDigit (ds @ rest) = ds"
proof (cases rest)
  case Nil
  then show ?thesis using assms(1) by simp
next
  case (Cons c cs)
  then show ?thesis using assms by simp
qed

lemma decimalValue_foldl_nonneg:
  "\<forall>c\<in>set ds. isDigit c \<Longrightarrow> 0 \<le> acc \<Longrightarrow>
   0 \<le> foldl (\<lambda>acc c. acc * 10 + (int (charCode c) - 48)) acc ds"
proof (induction ds arbitrary: acc)
  case Nil
  then show ?case by simp
next
  case (Cons c ds)
  have "0 \<le> acc * 10 + (int (charCode c) - 48)"
    using Cons.prems by (simp add: isDigit_def)
  then show ?case using Cons by simp
qed

lemma decimalValue_nonneg: "\<forall>c\<in>set ds. isDigit c \<Longrightarrow> 0 \<le> decimalValue ds"
  unfolding decimalValue_def by (rule decimalValue_foldl_nonneg) simp_all

lemma pattern_signed_literal:
  assumes "isSigned T" and "ds \<noteq> []" and "\<forall>c\<in>set ds. isDigit c"
    and "rest = [] \<or> \<not> isDigit (hd rest)"
  shows "patternMinus T (CHR ''-'' # ds @ rest)"
    and "patternDigits T (CHR ''-'' # ds @ rest) = ds"
    and "patternLength T (CHR ''-'' # ds @ rest) = 1 + length ds"
    and "patternValue T (CHR ''-'' # ds @ rest) = - decimalValue ds"
proof -
  show m: "patternMinus T (CHR ''-'' # ds @ rest)"
    using assms(1) by (simp add: patternMinus_def)
  show d: "patternDigits T (CHR ''-'' # ds @ rest) = ds"
    using m takeWhile_digits [OF assms(3,4)] by (simp add: patternDigits_def)
  show "patternLength T (CHR ''-'' # ds @ rest) = 1 + length ds"
    using m d by (simp add: patternLength_def)
  show "patternValue T (CHR ''-'' # ds @ rest) = - decimalValue ds"
    using m d by (simp add: patternValue_def)
qed

lemma not_isDigit_minus: "\<not> isDigit CHR ''-''"
  by (simp add: isDigit_def charCode_def)

lemma pattern_unsigned_literal:
  assumes "ds \<noteq> []" and "\<forall>c\<in>set ds. isDigit c"
    and "rest = [] \<or> \<not> isDigit (hd rest)"
  shows "\<not> patternMinus T (ds @ rest)"
    and "patternDigits T (ds @ rest) = ds"
    and "patternLength T (ds @ rest) = length ds"
    and "patternValue T (ds @ rest) = decimalValue ds"
proof -
  obtain c cs where ds: "ds = c # cs" using assms(1) by (cases ds) auto
  then have "isDigit c" using assms(2) by simp
  then have "c \<noteq> CHR ''-''" using not_isDigit_minus by auto
  then show m: "\<not> patternMinus T (ds @ rest)"
    by (simp add: patternMinus_def ds)
  show d: "patternDigits T (ds @ rest) = ds"
    using m takeWhile_digits [OF assms(2,3)] by (simp add: patternDigits_def)
  show "patternLength T (ds @ rest) = length ds"
    using m d by (simp add: patternLength_def)
  show "patternValue T (ds @ rest) = decimalValue ds"
    using m d by (simp add: patternValue_def)
qed

lemma signed_limits: "isSigned T \<Longrightarrow> numeric_limits_min T \<le> 0 \<and> 0 \<le> numeric_limits_max T"
  by (simp add: numeric_limits_min_def numeric_limits_max_def)

lemma pattern_no_match:
  assumes "str = [] \<or> (\<not> isDigit (hd str) \<and> (hd str = CHR ''-'' \<longrightarrow> \<not> isSigned T))"
  shows "patternDigits T str = []"
proof (cases str)
  case Nil
  then show ?thesis by (simp add: patternDigits_def patternMinus_def)
next
  case (Cons c cs)
  then have "\<not> patternMinus T str" and "\<not> isDigit c"
    using assms by (auto simp: patternMinus_def)
  then show ?thesis using Cons by (simp add: patternDigits_def)
qed

subsection \<open>The sign\<close>

text \<open>
  Claim C2, as the code has it. ParseInt consumes a leading \<open>'-'\<close> only if the target type
  is signed, and the caller's \<open>min\<close> plays no part in it: \<open>std::from_chars\<close> does not see
  the bounds. For a signed type and \<open>min \<ge> 0\<close>, on a \<open>'-'\<close> followed by digits the cursor
  is moved past the sign and the digits; the call fails with OutOfRange when the digits
  are not all zero; when they are, it returns 0 if 0 lies within the bounds and fails
  with OutOfRange if it does not.
\<close>

theorem ParseInt_minus_only_if_signed:
  "(str \<noteq> [] \<and> hd str = CHR ''-'' \<and> 0 < snd (ParseInt T str mn mx) \<longrightarrow> isSigned T)
   \<and> (isSigned T \<and> ds \<noteq> [] \<and> (\<forall>c\<in>set ds. isDigit c) \<and> (rest = [] \<or> \<not> isDigit (hd rest))
        \<and> 0 \<le> mn \<longrightarrow>
        snd (ParseInt T (CHR ''-'' # ds @ rest) mn mx) = 1 + length ds
        \<and> (decimalValue ds \<noteq> 0 \<longrightarrow> fst (ParseInt T (CHR ''-'' # ds @ rest) mn mx) = Inl OutOfRange)
        \<and> (decimalValue ds = 0 \<and> mn = 0 \<and> 0 \<le> mx \<longrightarrow>
             fst (ParseInt T (CHR ''-'' # ds @ rest) mn mx) = Inr 0)
        \<and> (decimalValue ds = 0 \<and> (0 < mn \<or> mx < 0) \<longrightarrow>
             fst (ParseInt T (CHR ''-'' # ds @ rest) mn mx) = Inl OutOfRange))"
proof (intro conjI impI)
  assume a: "str \<noteq> [] \<and> hd str = CHR ''-'' \<and> 0 < snd (ParseInt T str mn mx)"
  show "isSigned T"
  proof (rule ccontr)
    assume "\<not> isSigned T"
    then have "\<not> patternMinus T str"
      by (simp add: patternMinus_def split: list.splits)
    then have "patternDigits T str = []"
      using a not_isDigit_minus by (cases str) (auto simp: patternDigits_def)
    then have "snd (ParseInt T str mn mx) = 0"
      by (simp add: ParseInt_cases)
    then show False using a by simp
  qed
next
  assume a: "isSigned T \<and> ds \<noteq> [] \<and> (\<forall>c\<in>set ds. isDigit c)
             \<and> (rest = [] \<or> \<not> isDigit (hd rest)) \<and> 0 \<le> mn"
  let ?s = "CHR ''-'' # ds @ rest"
  have d: "patternDigits T ?s = ds" and l: "patternLength T ?s = 1 + length ds"
    and v: "patternValue T ?s = - decimalValue ds"
    using a pattern_signed_literal [of T ds rest] by blast+
  have nn: "0 \<le> decimalValue ds"
    using a decimalValue_nonneg by blast
  have lim: "numeric_limits_min T \<le> 0 \<and> 0 \<le> numeric_limits_max T"
    using a signed_limits by blast
  show "snd (ParseInt T ?s mn mx) = 1 + length ds"
    using a d l by (simp add: ParseInt_cases)
  show "fst (ParseInt T ?s mn mx) = Inl OutOfRange" if "decimalValue ds \<noteq> 0"
  proof -
    have "patternValue T ?s < mn" using that nn a v by linarith
    then show ?thesis using a d by (simp add: ParseInt_cases)
  qed
  show "fst (ParseInt T ?s mn mx) = Inr 0" if "decimalValue ds = 0 \<and> mn = 0 \<and> 0 \<le> mx"
    using that a d v lim by (simp add: ParseInt_cases)
  show "fst (ParseInt T ?s mn mx) = Inl OutOfRange" if "decimalValue ds = 0 \<and> (0 < mn \<or> mx < 0)"
  proof -
    have "patternValue T ?s < mn \<or> mx < patternValue T ?s" using that v by auto
    then show ?thesis using a d by (auto simp: ParseInt_cases)
  qed
qed

text \<open>
  Claim C2 at the type \<open>int32_t\<close>: the input \<open>"-5"\<close> with the bounds 0 and 100, and the
  input \<open>"-0"\<close> with the bounds 5 and 10 and with the bounds 0 and 10.
\<close>

theorem ParseInt_minus_only_if_signed_witness:
  "isSigned IntT_int32
   \<and> snd (ParseInt IntT_int32 ''-5'' 0 100) = 2
   \<and> fst (ParseInt IntT_int32 ''-5'' 0 100) = Inl OutOfRange
   \<and> snd (ParseInt IntT_int32 ''-0'' 5 10) = 2
   \<and> fst (ParseInt IntT_int32 ''-0'' 5 10) = Inl OutOfRange
   \<and> fst (ParseInt IntT_int32 ''-0'' 0 10) = Inr 0"
proof -
  have h: "isSigned IntT_int32 \<and> ''5'' \<noteq> [] \<and> (\<forall>c\<in>set ''5''. isDigit c)
           \<and> ([] = [] \<or> \<not> isDigit (hd [])) \<and> (0::int) \<le> 0"
    by (simp add: IntT_int32_def isDigit_def charCode_def)
  have v: "decimalValue ''5'' \<noteq> 0"
    by (simp add: decimalValue_def charCode_def)
  have a: "snd (ParseInt IntT_int32 ''-5'' 0 100) = 2
           \<and> fst (ParseInt IntT_int32 ''-5'' 0 100) = Inl OutOfRange"
    using h v ParseInt_minus_only_if_signed [of "''-5''" IntT_int32 0 100 "''5''" "[]"]
    by simp
  have h0: "isSigned IntT_int32 \<and> ''0'' \<noteq> [] \<and> (\<forall>c\<in>set ''0''. isDigit c)
           \<and> ([] = [] \<or> \<not> isDigit (hd [])) \<and> (0::int) \<le> 5"
    by (simp add: IntT_int32_def isDigit_def charCode_def)
  have v0: "decimalValue ''0'' = 0 \<and> ((0::int) < 5 \<or> (10::int) < 0)"
    by (simp add: decimalValue_def charCode_def)
  have b: "snd (ParseInt IntT_int32 ''-0'' 5 10) = 2
           \<and> fst (ParseInt IntT_int32 ''-0'' 5 10) = Inl OutOfRange"
    using h0 v0 ParseInt_minus_only_if_signed [of "''-0''" IntT_int32 5 10 "''0''" "[]"]
    by simp
  have h1: "isSigned IntT_int32 \<and> ''0'' \<noteq> [] \<and> (\<forall>c\<in>set ''0''. isDigit c)
           \<and> ([] = [] \<or> \<not> isDigit (hd [])) \<and> (0::int) \<le> 0"
    by (simp add: IntT_int32_def isDigit_def charCode_def)
  have v1: "decimalValue ''0'' = 0 \<and> (0::int) = 0 \<and> (0::int) \<le> 10"
    by (simp add: decimalValue_def charCode_def)
  have c: "fst (ParseInt IntT_int32 ''-0'' 0 10) = Inr 0"
    using h1 v1 ParseInt_minus_only_if_signed [of "''-0''" IntT_int32 0 10 "''0''" "[]"]
    by simp
  show ?thesis using h a b c by simp
qed

text \<open>
  Claim C2 as stated fails: for the signed type \<open>int32_t\<close> and \<open>min = 0\<close>, the input
  \<open>"-0"\<close> is accepted with value 0 and both of its characters, the sign included, are
  consumed; on \<open>"-5"\<close> the cursor is moved past sign and digit as well.
\<close>

theorem ParseInt_minus_consumed_with_min_0:
  "isSigned IntT_int32 \<and> \<not> (0 :: int) < 0
   \<and> ParseInt IntT_int32 ''-0'' 0 10 = (Inr 0, 2)
   \<and> ParseInt IntT_int32 ''-5'' 0 10 = (Inl OutOfRange, 2)"
  by (simp add: ParseInt_eval)

subsection \<open>Errors\<close>

text \<open>
  Claim C3, as the code has it. ParseInt fails with ParseError exactly when no digit was
  consumed, that is when the run of digits after the sign that the type accepts is
  empty. In terms of the input: the string is empty, or it begins with a character that
  is neither a digit nor a \<open>'-'\<close> accepted by a signed type, or it begins with such a
  \<open>'-'\<close> that no digit follows. An input that begins with \<open>'-'\<close> followed by a digit is
  parsed for a signed type, though it does not begin with a digit. ParseInt fails with
  OutOfRange exactly when digits were consumed and the value of the literal is outside
  the caller's bounds or outside the range of the integer type.
\<close>

theorem ParseInt_errors:
  "(fst (ParseInt T str mn mx) = Inl ParseError \<longleftrightarrow> patternDigits T str = [])
   \<and> (fst (ParseInt T str mn mx) = Inl OutOfRange \<longleftrightarrow>
        patternDigits T str \<noteq> []
        \<and> (patternValue T str < mn \<or> mx < patternValue T str
           \<or> patternValue T str < numeric_limits_min T \<or> numeric_limits_max T < patternValue T str))
   \<and> (str = [] \<or> (\<not> isDigit (hd str) \<and> (hd str = CHR ''-'' \<longrightarrow> \<not> isSigned T)) \<longrightarrow>
        ParseInt T str mn mx = (Inl ParseError, 0))
   \<and> (fst (ParseInt T str mn mx) = Inl ParseError \<longleftrightarrow>
        str = []
        \<or> (\<not> isDigit (hd str) \<and> (hd str = CHR ''-'' \<longrightarrow> \<not> isSigned T))
        \<or> (isSigned T \<and> hd str = CHR ''-'' \<and> (tl str = [] \<or> \<not> isDigit (hd (tl str)))))"
proof (intro conjI impI)
  show pe: "fst (ParseInt T str mn mx) = Inl ParseError \<longleftrightarrow> patternDigits T str = []"
    by (simp add: ParseInt_cases)
  show "fst (ParseInt T str mn mx) = Inl OutOfRange \<longleftrightarrow>
        patternDigits T str \<noteq> []
        \<and> (patternValue T str < mn \<or> mx < patternValue T str
           \<or> patternValue T str < numeric_limits_min T \<or> numeric_limits_max T < patternValue T str)"
    by (auto simp: ParseInt_cases)
  have shape: "patternDigits T str = [] \<longleftrightarrow>
        str = []
        \<or> (\<not> isDigit (hd str) \<and> (hd str = CHR ''-'' \<longrightarrow> \<not> isSigned T))
        \<or> (isSigned T \<and> hd str = CHR ''-'' \<and> (tl str = [] \<or> \<not> isDigit (hd (tl str))))"
  proof (cases str)
    case Nil
    then show ?thesis by (simp add: patternDigits_def patternMinus_def)
  next
    case (Cons c cs)
    show ?thesis
    proof (cases "isSigned T \<and> c = CHR ''-''")
      case True
      then show ?thesis
        using Cons not_isDigit_minus
        by (auto simp: patternDigits_def patternMinus_def takeWhile_eq_Nil_iff)
    next
      case False
      then show ?thesis
        using Cons by (auto simp: patternDigits_def patternMinus_def)
    qed
  qed
  show "fst (ParseInt T str mn mx) = Inl ParseError \<longleftrightarrow>
        str = []
        \<or> (\<not> isDigit (hd str) \<and> (hd str = CHR ''-'' \<longrightarrow> \<not> isSigned T))
        \<or> (isSigned T \<and> hd str = CHR ''-'' \<and> (tl str = [] \<or> \<not> isDigit (hd (tl str))))"
    using pe shape by (rule trans)
  assume "str = [] \<or> (\<not> isDigit (hd str) \<and> (hd str = CHR ''-'' \<longrightarrow> \<not> isSigned T))"
  then have "patternDigits T str = []" by (rule pattern_no_match)
  then show "ParseInt T str mn mx = (Inl ParseError, 0)"
    by (simp add: ParseInt_cases)
qed

text \<open>
  Claim C3 at concrete inputs: \<open>"256"\<close> overflows \<open>uint8_t\<close>, \<open>"200"\<close> fits \<open>int32_t\<close> but
  exceeds the bound 100; the empty string, \<open>"x12"\<close>, \<open>"-5"\<close> for \<open>uint8_t\<close>, and \<open>"-"\<close> and
  \<open>"-x"\<close> for \<open>int32_t\<close> have no digits to consume; \<open>"-5"\<close> for \<open>int32_t\<close> has one.
\<close>

theorem ParseInt_errors_witness:
  "fst (ParseInt IntT_uint8 ''256'' 0 255) = Inl OutOfRange
   \<and> fst (ParseInt IntT_int32 ''200'' 0 100) = Inl OutOfRange
   \<and> ParseInt IntT_int32 [] 0 100 = (Inl ParseError, 0)
   \<and> ParseInt IntT_int32 ''x12'' 0 100 = (Inl ParseError, 0)
   \<and> ParseInt IntT_uint8 ''-5'' 0 255 = (Inl ParseError, 0)
   \<and> fst (ParseInt IntT_int32 ''-'' (-100) 100) = Inl ParseError
   \<and> fst (ParseInt IntT_int32 ''-x'' (-100) 100) = Inl ParseError
   \<and> fst (ParseInt IntT_int32 ''-5'' (-100) 100) \<noteq> Inl ParseError"
proof -
  have 1: "patternDigits IntT_uint8 ''256'' \<noteq> []
           \<and> numeric_limits_max IntT_uint8 < patternValue IntT_uint8 ''256''"
    by (simp add: ParseInt_eval)
  have a: "fst (ParseInt IntT_uint8 ''256'' 0 255) = Inl OutOfRange"
    using 1 ParseInt_errors [of IntT_uint8 "''256''" 0 255, THEN conjunct2, THEN conjunct1]
    by blast
  have 2: "patternDigits IntT_int32 ''200'' \<noteq> [] \<and> 100 < patternValue IntT_int32 ''200''"
    by (simp add: ParseInt_eval)
  have b: "fst (ParseInt IntT_int32 ''200'' 0 100) = Inl OutOfRange"
    using 2 ParseInt_errors [of IntT_int32 "''200''" 0 100, THEN conjunct2, THEN conjunct1]
    by blast
  have c: "ParseInt IntT_int32 [] 0 100 = (Inl ParseError, 0)"
    using ParseInt_errors [of IntT_int32 "[]" 0 100, THEN conjunct2, THEN conjunct2, THEN conjunct1]
    by blast
  have 3: "\<not> isDigit (hd ''x12'') \<and> hd ''x12'' \<noteq> CHR ''-''"
    by (simp add: isDigit_def charCode_def)
  have d: "ParseInt IntT_int32 ''x12'' 0 100 = (Inl ParseError, 0)"
    using 3 ParseInt_errors [of IntT_int32 "''x12''" 0 100, THEN conjunct2, THEN conjunct2,
        THEN conjunct1]
    by blast
  have 4: "isSigned IntT_int32 \<and> hd ''-'' = CHR ''-'' \<and> tl ''-'' = []"
    by (simp add: IntT_int32_def)
  have e: "fst (ParseInt IntT_int32 ''-'' (-100) 100) = Inl ParseError"
    using 4 ParseInt_errors [of IntT_int32 "''-''" "-100" 100, THEN conjunct2, THEN conjunct2,
        THEN conjunct2]
    by blast
  have 5: "\<not> isDigit (hd ''-5'') \<and> \<not> isSigned IntT_uint8"
    by (simp add: isDigit_def charCode_def IntT_uint8_def)
  have f: "ParseInt IntT_uint8 ''-5'' 0 255 = (Inl ParseError, 0)"
    using 5 ParseInt_errors [of IntT_uint8 "''-5''" 0 255, THEN conjunct2, THEN conjunct2,
        THEN conjunct1]
    by blast
  have 6: "isSigned IntT_int32 \<and> hd ''-x'' = CHR ''-'' \<and> \<not> isDigit (hd (tl ''-x''))"
    by (simp add: IntT_int32_def isDigit_def charCode_def)
  have g: "fst (ParseInt IntT_int32 ''-x'' (-100) 100) = Inl ParseError"
    using 6 ParseInt_errors [of IntT_int32 "''-x''" "-100" 100, THEN conjunct2, THEN conjunct2,
        THEN conjunct2]
    by blast
  have 7: "''-5'' \<noteq> [] \<and> isSigned IntT_int32 \<and> hd ''-5'' = CHR ''-'' \<and> tl ''-5'' \<noteq> []
           \<and> isDigit (hd (tl ''-5''))"
    by (simp add: IntT_int32_def isDigit_def charCode_def)
  have h: "fst (ParseInt IntT_int32 ''-5'' (-100) 100) \<noteq> Inl ParseError"
    using 7 ParseInt_errors [of IntT_int32 "''-5''" "-100" 100, THEN conjunct2, THEN conjunct2,
        THEN conjunct2]
    by blast
  show ?thesis using a b c d e f g h by (intro conjI)
qed

text \<open>
  Claim C3 as stated fails: the input \<open>"-5"\<close> does not begin with a digit, yet for the
  signed type \<open>int32_t\<close> ParseInt does not fail with ParseError on it. With the bounds
  -100 and 100 it returns -5, and with the bounds 0 and 100 it fails with OutOfRange,
  in both cases with the cursor after the digit.
\<close>

theorem ParseInt_minus_leading_is_parsed:
  "\<not> isDigit (hd ''-5'')
   \<and> ParseInt IntT_int32 ''-5'' (-100) 100 = (Inr (-5), 2)
   \<and> fst (ParseInt IntT_int32 ''-5'' (-100) 100) \<noteq> Inl ParseError
   \<and> ParseInt IntT_int32 ''-5'' 0 100 = (Inl OutOfRange, 2)"
  by (simp add: ParseInt_eval)

subsection \<open>Valid literals\<close>

text \<open>
  Claim C4. Let a literal be a non-empty run of decimal digits, preceded by \<open>'-'\<close> only
  if the type is signed, whose value lies within the range of the type and within
  \<open>[min, max]\<close>. On the literal, also when followed by text that does not begin with a
  digit, ParseInt returns the value of the literal and sets the cursor to the number of
  digits, plus one for the sign. Leading whitespace is not skipped: with a whitespace
  character in front, the call fails with ParseError and consumes nothing.
\<close>

theorem ParseInt_valid_literal:
  assumes "ds \<noteq> []" and "\<forall>c\<in>set ds. isDigit c"
    and "sign = [] \<or> (sign = ''-'' \<and> isSigned T)"
    and "v = (if sign = [] then decimalValue ds else - decimalValue ds)"
    and "numeric_limits_min T \<le> v" and "v \<le> numeric_limits_max T"
    and "mn \<le> v" and "v \<le> mx"
    and "rest = [] \<or> \<not> isDigit (hd rest)"
  shows "ParseInt T (sign @ ds @ rest) mn mx = (Inr v, length sign + length ds)
         \<and> (\<forall>c\<in>set whitespace. ParseInt T (c # sign @ ds @ rest) mn mx = (Inl ParseError, 0))"
proof
  show "ParseInt T (sign @ ds @ rest) mn mx = (Inr v, length sign + length ds)"
  proof (cases "sign = []")
    case True
    then show ?thesis
      using assms pattern_unsigned_literal [of ds rest T] by (simp add: ParseInt_cases)
  next
    case False
    then have s: "sign = ''-''" and "isSigned T" using assms(3) by auto
    then show ?thesis
      using assms pattern_signed_literal [of T ds rest] by (simp add: ParseInt_cases)
  qed
  show "\<forall>c\<in>set whitespace. ParseInt T (c # sign @ ds @ rest) mn mx = (Inl ParseError, 0)"
  proof
    fix c assume "c \<in> set whitespace"
    then have "\<not> isDigit c \<and> c \<noteq> CHR ''-''"
      by (auto simp: whitespace_def isDigit_def charCode_def)
    then have "patternDigits T (c # sign @ ds @ rest) = []"
      using pattern_no_match [of "c # sign @ ds @ rest" T] by simp
    then show "ParseInt T (c # sign @ ds @ rest) mn mx = (Inl ParseError, 0)"
      by (simp add: ParseInt_cases)
  qed
qed

text \<open>Claim C4 at the type \<open>int8_t\<close> and the literal \<open>"-128"\<close>.\<close>

theorem ParseInt_valid_literal_witness:
  "ParseInt IntT_int8 ''-128'' (-128) 127 = (Inr (-128), 4)
   \<and> ParseInt IntT_int8 '' -128'' (-128) 127 = (Inl ParseError, 0)"
proof -
  have v: "- 128 = (if ''-'' = [] then decimalValue ''128'' else - decimalValue ''128'')"
    by (simp add: decimalValue_def charCode_def)
  have ds: "''128'' \<noteq> [] \<and> (\<forall>c\<in>set ''128''. isDigit c)"
    by (simp add: isDigit_def charCode_def)
  have sg: "''-'' = [] \<or> (''-'' = ''-'' \<and> isSigned IntT_int8)"
    by (simp add: IntT_int8_def)
  have lim: "numeric_limits_min IntT_int8 \<le> - 128 \<and> - 128 \<le> numeric_limits_max IntT_int8"
    by (simp add: numeric_limits_min_def numeric_limits_max_def IntT_int8_def)
  have ws: "CHR '' '' \<in> set whitespace" by (simp add: whitespace_def)
  have "ParseInt IntT_int8 (''-'' @ ''128'' @ []) (-128) 127 = (Inr (-128), length ''-'' + length ''128'')
        \<and> (\<forall>c\<in>set whitespace. ParseInt IntT_int8 (c # ''-'' @ ''128'' @ []) (-128) 127 = (Inl ParseError, 0))"
    using ds sg lim
    by (intro ParseInt_valid_literal [where sign = "''-''" and ds = "''128''" and rest = "[]", OF _ _ _ v]) simp_all
  then show ?thesis using ws by auto
qed

section \<open>Properties of the player data tables\<close>

subsection \<open>The loop over the columns\<close>

lemma forColumns_not_enough:
  "forColumns sw fn pre fieldIt locals = Inr (locals', False) \<Longrightarrow>
   length fieldIt \<le> fieldsPassed pre + skipLength col \<Longrightarrow>
   forColumns sw fn (pre @ col # post) fieldIt locals = Inl (reportFatalError NotEnoughColumns fn)"
proof (induction pre arbitrary: fieldIt locals)
  case Nil
  then show ?case by (simp add: fieldsPassed_def)
next
  case (Cons p pre)
  let ?it = "drop (skipLength p) fieldIt"
  from Cons.prems(1) have ne: "?it \<noteq> []"
    by (auto simp: Let_def split: if_splits)
  from Cons.prems(1) ne obtain l1 where
    sw: "sw (column p) (hd ?it) locals = Inr (l1, False)"
    and rest: "forColumns sw fn pre (tl ?it) l1 = Inr (locals', False)"
    by (auto simp: Let_def split: sum.splits if_splits)
  have "length (tl ?it) \<le> fieldsPassed pre + skipLength col"
    using Cons.prems(2) by (simp add: fieldsPassed_def)
  then have "forColumns sw fn (pre @ col # post) (tl ?it) l1 =
             Inl (reportFatalError NotEnoughColumns fn)"
    using Cons.IH rest by blast
  then show ?case using ne sw by (simp add: Let_def)
qed

lemma forColumns_complete_length:
  "forColumns sw fn columns fieldIt locals = Inr (locals', False) \<Longrightarrow>
   fieldsPassed columns \<le> length fieldIt"
proof (induction columns arbitrary: fieldIt locals)
  case Nil
  then show ?case by (simp add: fieldsPassed_def)
next
  case (Cons p columns)
  let ?it = "drop (skipLength p) fieldIt"
  from Cons.prems have ne: "?it \<noteq> []"
    by (auto simp: Let_def split: if_splits)
  from Cons.prems ne obtain l1 where
    "forColumns sw fn columns (tl ?it) l1 = Inr (locals', False)"
    by (auto simp: Let_def split: sum.splits if_splits)
  then have "fieldsPassed columns \<le> length (tl ?it)"
    using Cons.IH by blast
  moreover have "length ?it \<noteq> 0" using ne by (simp del: length_drop drop_eq_Nil)
  ultimately show ?case
    by (simp add: fieldsPassed_def)
qed

lemma loadExperienceRecords_append:
  "loadExperienceRecords columns (before @ after) ed =
     (case loadExperienceRecords columns before ed of
        Inl fatal \<Rightarrow> Inl fatal
      | Inr ed' \<Rightarrow> loadExperienceRecords columns after ed')"
  by (induction before arbitrary: ed) (auto split: sum.splits prod.splits)

subsection \<open>Thresholds\<close>

lemmas parseInt_eval = parseInt_def ParseInt_eval

lemma unat_getMaxLevel: "unat (getMaxLevel ed) = min (length (levelThresholds ed)) 255"
proof -
  have "min (length (levelThresholds ed)) 255 < 2 ^ LENGTH(8)" by simp
  then show ?thesis
    unfolding getMaxLevel_def by (rule of_nat_inverse [OF refl])
qed

lemma thresholdIndex_eq:
  assumes "0 < level"
  shows "thresholdIndex ed level = min (unat level - 1) (min (length (levelThresholds ed)) 255)"
proof -
  have "unat (getMaxLevel ed) < 2 ^ 32"
    by (simp add: unat_getMaxLevel)
  then have "unat (ucast (getMaxLevel ed) :: uint32_t) = unat (getMaxLevel ed)"
    by (simp add: unsigned_ucast_eq take_bit_nat_eq_self)
  moreover have "unat (level - 1) = unat level - 1"
    using assms by (simp add: unat_minus_one word_neq_0_conv)
  moreover have "unat (min (level - 1) (ucast (getMaxLevel ed) :: uint32_t)) =
                 min (unat (level - 1)) (unat (ucast (getMaxLevel ed) :: uint32_t))"
    by (simp add: min_def word_le_nat_alt)
  ultimately show ?thesis
    by (simp add: thresholdIndex_def unat_getMaxLevel)
qed

lemma get_set_ThresholdForLevel:
  assumes "0 < level" and "unat level \<le> 256"
  shows "getThresholdForLevel (setThresholdForLevel ed level experience) level = Inr experience"
proof -
  let ?ed = "setThresholdForLevel ed level experience"
  have pos: "0 < unat level" using assms(1) by (simp add: word_neq_0_conv unat_gt_0)
  have um: "unat (level - 1) = unat level - 1"
    using assms(1) by (simp add: unat_minus_one word_neq_0_conv)
  have len: "unat level \<le> length (levelThresholds ?ed)"
    using assms(1) by (simp add: setThresholdForLevel_def Let_def)
  have idx: "thresholdIndex ?ed level = unat level - 1"
    using assms len pos by (simp add: thresholdIndex_eq)
  have "levelThresholds ?ed ! (unat level - 1) = experience"
    using assms(1) pos um by (simp add: setThresholdForLevel_def Let_def nth_append)
  then show ?thesis
    using assms(1) idx len pos by (simp add: getThresholdForLevel_def)
qed

lemma getThresholdForLevel_past_end:
  assumes "length (levelThresholds ed) \<le> 255" and "length (levelThresholds ed) < unat level"
  shows "thresholdIndex ed level = length (levelThresholds ed)"
    and "getThresholdForLevel ed level = Inl OutOfBounds"
proof -
  have "level \<noteq> 0" using assms(2) by auto
  then have pos: "0 < level" by (simp add: word_neq_0_conv)
  show i: "thresholdIndex ed level = length (levelThresholds ed)"
    using assms by (simp add: thresholdIndex_eq [OF pos])
  show "getThresholdForLevel ed level = Inl OutOfBounds"
    using pos i by (simp add: getThresholdForLevel_def)
qed

lemma MaxLevel_row:
  "forColumns switchExperienceColumn Experience_tsv
     [\<lparr>column = Level, skipLength = 0\<rparr>, \<lparr>column = Experience, skipLength = 0\<rparr>]
     [''MaxLevel'', x] (0, 0) = Inr ((0, 0), True)"
  by (simp add: parseInt_eval)

lemma row_5_2000:
  "forColumns switchExperienceColumn Experience_tsv
     [\<lparr>column = Level, skipLength = 0\<rparr>, \<lparr>column = Experience, skipLength = 0\<rparr>]
     [''5'', ''2000''] (0, 0) = Inr ((5, 2000), False)"
  by (simp add: parseInt_eval)

lemma replicate_5_update: "(replicate 5 a)[4 := b] = [a, a, a, a, b]"
  by (simp add: eval_nat_numeral)

subsection \<open>Rows with too few columns\<close>

text \<open>
  Claim C8. In the loop over the columns of a record, in ReloadExperienceData and in
  ReloadPlayerData alike: when the columns \<open>pre\<close> have been read without error and
  without \<open>skipRecord\<close>, and advancing by the \<open>skipLength\<close> of the next column reaches
  the end of the record (the record has no more than \<open>fieldsPassed pre + skipLength col\<close>
  fields), the loop ends in the fatal error NotEnoughColumns of the file, whatever
  columns follow. For ReloadExperienceData the whole load then ends in that error, once
  the records before have been loaded.
\<close>

theorem NotEnoughColumns_is_fatal:
  "(forColumns switchExperienceColumn Experience_tsv pre dataRow (0, 0) = Inr (locals, False)
      \<and> length dataRow \<le> fieldsPassed pre + skipLength col \<longrightarrow>
    forColumns switchExperienceColumn Experience_tsv (pre @ col # post) dataRow (0, 0) =
      Inl (reportFatalError NotEnoughColumns Experience_tsv)
    \<and> (loadExperienceRecords (pre @ col # post) before (clear ed) = Inr ed' \<longrightarrow>
        ReloadExperienceData (Inr (before @ dataRow # after)) (Inr (pre @ col # post)) ed =
          Inl (reportFatalError NotEnoughColumns Experience_tsv)))
   \<and> (playerDataRecord parseStat parseFixed ppre playerRow = Inr (plocals, False)
      \<and> length playerRow \<le> fieldsPassed ppre + skipLength pcol \<longrightarrow>
    playerDataRecord parseStat parseFixed (ppre @ pcol # ppost) playerRow =
      Inl (reportFatalError NotEnoughColumns CharStats_tsv))"
proof (intro conjI impI)
  assume a: "forColumns switchExperienceColumn Experience_tsv pre dataRow (0, 0) = Inr (locals, False)
             \<and> length dataRow \<le> fieldsPassed pre + skipLength col"
  show fatal: "forColumns switchExperienceColumn Experience_tsv (pre @ col # post) dataRow (0, 0) =
                  Inl (reportFatalError NotEnoughColumns Experience_tsv)"
    by (rule forColumns_not_enough [OF a [THEN conjunct1] a [THEN conjunct2]])
  assume "loadExperienceRecords (pre @ col # post) before (clear ed) = Inr ed'"
  then show "ReloadExperienceData (Inr (before @ dataRow # after)) (Inr (pre @ col # post)) ed =
             Inl (reportFatalError NotEnoughColumns Experience_tsv)"
    using fatal by (simp add: ReloadExperienceData_def loadExperienceRecords_append)
next
  assume b: "playerDataRecord parseStat parseFixed ppre playerRow = Inr (plocals, False)
          \<and> length playerRow \<le> fieldsPassed ppre + skipLength pcol"
  show "playerDataRecord parseStat parseFixed (ppre @ pcol # ppost) playerRow =
             Inl (reportFatalError NotEnoughColumns CharStats_tsv)"
    unfolding playerDataRecord_def
    by (rule forColumns_not_enough
        [OF b [unfolded playerDataRecord_def, THEN conjunct1] b [THEN conjunct2]])
qed

text \<open>
  Claim C8 on records with a single field under a header of two columns: the row \<open>3\<close>
  of the experience table, also after the row \<open>5, 2000\<close>, and the row \<open>Warrior\<close> of the
  character table.
\<close>

theorem NotEnoughColumns_is_fatal_witness:
  "forColumns switchExperienceColumn Experience_tsv
     [\<lparr>column = Level, skipLength = 0\<rparr>, \<lparr>column = Experience, skipLength = 0\<rparr>]
     [''3''] (0, 0) = Inl (reportFatalError NotEnoughColumns Experience_tsv)
   \<and> ReloadExperienceData (Inr [[''5'', ''2000''], [''3'']])
       (Inr [\<lparr>column = Level, skipLength = 0\<rparr>, \<lparr>column = Experience, skipLength = 0\<rparr>])
       \<lparr>levelThresholds = []\<rparr> = Inl (reportFatalError NotEnoughColumns Experience_tsv)
   \<and> playerDataRecord (parseInt IntT_uint8) (parseInt IntT_int32)
       [\<lparr>column = Class, skipLength = 0\<rparr>, \<lparr>column = BaseStrength, skipLength = 0\<rparr>]
       [''Warrior''] = Inl (reportFatalError NotEnoughColumns CharStats_tsv)"
proof -
  let ?L = "\<lparr>column = Level, skipLength = 0\<rparr>"
  let ?E = "\<lparr>column = Experience, skipLength = 0\<rparr>"
  let ?C = "\<lparr>column = Class, skipLength = 0\<rparr>"
  let ?B = "\<lparr>column = BaseStrength, skipLength = 0\<rparr>"
  have h1: "forColumns switchExperienceColumn Experience_tsv [?L] [''3''] (0, 0) = Inr ((3, 0), False)
            \<and> length [''3''] \<le> fieldsPassed [?L] + skipLength ?E"
    by (simp add: parseInt_eval fieldsPassed_def)
  have h2: "loadExperienceRecords ([?L] @ ?E # []) [[''5'', ''2000'']] (clear \<lparr>levelThresholds = []\<rparr>)
            = Inr (setThresholdForLevel (clear \<lparr>levelThresholds = []\<rparr>) 5 2000)"
    by (simp add: parseInt_eval)
  have h3: "playerDataRecord (parseInt IntT_uint8) (parseInt IntT_int32) [?C] [''Warrior'']
              = Inr ((Some Warrior, emptyPlayerData\<lparr>className := ''Warrior''\<rparr>), False)
            \<and> length [''Warrior''] \<le> fieldsPassed [?C] + skipLength ?B"
    by (simp add: playerDataRecord_def fieldsPassed_def)
  note t = NotEnoughColumns_is_fatal [where pre = "[?L]" and col = ?E and post = "[]"
      and dataRow = "[''3'']" and locals = "(3, 0)" and before = "[[''5'', ''2000'']]"
      and after = "[]" and ed = "\<lparr>levelThresholds = []\<rparr>"
      and ed' = "setThresholdForLevel (clear \<lparr>levelThresholds = []\<rparr>) 5 2000"
      and parseStat = "parseInt IntT_uint8" and parseFixed = "parseInt IntT_int32"
      and ppre = "[?C]" and pcol = ?B and ppost = "[]" and playerRow = "[''Warrior'']"
      and plocals = "(Some Warrior, emptyPlayerData\<lparr>className := ''Warrior''\<rparr>)"]
  have a: "forColumns switchExperienceColumn Experience_tsv ([?L] @ ?E # []) [''3''] (0, 0) =
           Inl (reportFatalError NotEnoughColumns Experience_tsv)"
    using h1 t by blast
  have b: "ReloadExperienceData (Inr ([[''5'', ''2000'']] @ [''3''] # [])) (Inr ([?L] @ ?E # []))
             \<lparr>levelThresholds = []\<rparr> = Inl (reportFatalError NotEnoughColumns Experience_tsv)"
    using h1 h2 t by blast
  have c: "playerDataRecord (parseInt IntT_uint8) (parseInt IntT_int32) ([?C] @ ?B # [])
             [''Warrior''] = Inl (reportFatalError NotEnoughColumns CharStats_tsv)"
    using h3 t by blast
  show ?thesis using a b c by simp
qed

subsection \<open>Loading the experience table\<close>

text \<open>
  Claim C9. Under the header \<open>Level, Experience\<close>, the data row \<open>5, 2000\<close> makes the call
  \<open>setThresholdForLevel(5, 2000)\<close>, after which \<open>getThresholdForLevel(5)\<close> is 2000, from
  every state of the table. A row whose Level field is \<open>MaxLevel\<close> is skipped: wherever
  it stands among the records, the load gives what it gives without that row. Loading
  the two rows \<open>5, 2000\<close> and \<open>MaxLevel, 0\<close> gives the thresholds of the first row alone,
  and the threshold of level 5 is 2000.
\<close>

theorem ReloadExperienceData_scenario:
  "loadExperienceRecords
     [\<lparr>column = Level, skipLength = 0\<rparr>, \<lparr>column = Experience, skipLength = 0\<rparr>]
     [[''5'', ''2000'']] ed = Inr (setThresholdForLevel ed 5 2000)
   \<and> getThresholdForLevel (setThresholdForLevel ed 5 2000) 5 = Inr 2000
   \<and> loadExperienceRecords
       [\<lparr>column = Level, skipLength = 0\<rparr>, \<lparr>column = Experience, skipLength = 0\<rparr>]
       (before @ [''MaxLevel'', x] # after) ed =
     loadExperienceRecords
       [\<lparr>column = Level, skipLength = 0\<rparr>, \<lparr>column = Experience, skipLength = 0\<rparr>]
       (before @ after) ed
   \<and> ReloadExperienceData (Inr [[''5'', ''2000''], [''MaxLevel'', ''0'']])
       (Inr [\<lparr>column = Level, skipLength = 0\<rparr>, \<lparr>column = Experience, skipLength = 0\<rparr>]) ed =
     Inr \<lparr>levelThresholds = [0xFFFFFFFF, 0xFFFFFFFF, 0xFFFFFFFF, 0xFFFFFFFF, 2000]\<rparr>
   \<and> getThresholdForLevel
       \<lparr>levelThresholds = [0xFFFFFFFF, 0xFFFFFFFF, 0xFFFFFFFF, 0xFFFFFFFF, 2000]\<rparr> 5 = Inr 2000"
proof -
  let ?cols = "[\<lparr>column = Level, skipLength = 0\<rparr>, \<lparr>column = Experience, skipLength = 0\<rparr>]"
  have 1: "loadExperienceRecords ?cols [[''5'', ''2000'']] ed = Inr (setThresholdForLevel ed 5 2000)"
    by (simp only: loadExperienceRecords.simps row_5_2000) simp
  have 2: "getThresholdForLevel (setThresholdForLevel ed 5 2000) 5 = Inr 2000"
    by (rule get_set_ThresholdForLevel) simp_all
  have skip: "loadExperienceRecords ?cols ([''MaxLevel'', x] # after) e =
              loadExperienceRecords ?cols after e" for e
    by (simp only: loadExperienceRecords.simps MaxLevel_row) simp
  have 3: "loadExperienceRecords ?cols (before @ [''MaxLevel'', x] # after) ed =
           loadExperienceRecords ?cols (before @ after) ed"
    unfolding loadExperienceRecords_append [of ?cols before] using skip
    by (simp split: sum.splits)
  have 4: "ReloadExperienceData (Inr [[''5'', ''2000''], [''MaxLevel'', ''0'']]) (Inr ?cols) ed =
           Inr \<lparr>levelThresholds = [0xFFFFFFFF, 0xFFFFFFFF, 0xFFFFFFFF, 0xFFFFFFFF, 2000]\<rparr>"
    by (simp add: ReloadExperienceData_def parseInt_eval clear_def setThresholdForLevel_def
        replicate_5_update)
  have 5: "getThresholdForLevel
             \<lparr>levelThresholds = [0xFFFFFFFF, 0xFFFFFFFF, 0xFFFFFFFF, 0xFFFFFFFF, 2000]\<rparr> 5 = Inr 2000"
    by (simp add: getThresholdForLevel_def thresholdIndex_def getMaxLevel_def)
  show ?thesis using 1 2 3 4 5 by (intro conjI)
qed

subsection \<open>The index of getThresholdForLevel\<close>

text \<open>
  Claim C10 fails on the code. \<open>getThresholdForLevel(0)\<close> is 0 without a read of the
  vector, and a level up to the size of the vector is read in bounds; but for a level
  above the size the index \<open>min(level - 1, getMaxLevel())\<close> is the size itself, one past
  the last element. So it is for level 1 on the empty table (the state after loading a
  file without data rows) and for level 3 on a table of two levels.
\<close>

theorem getThresholdForLevel_index_past_end:
  "ReloadExperienceData (Inr [])
     (Inr [\<lparr>column = Level, skipLength = 0\<rparr>, \<lparr>column = Experience, skipLength = 0\<rparr>]) ed =
     Inr \<lparr>levelThresholds = []\<rparr>
   \<and> thresholdIndex \<lparr>levelThresholds = []\<rparr> 1 = 0
   \<and> getThresholdForLevel \<lparr>levelThresholds = []\<rparr> 1 = Inl OutOfBounds
   \<and> ReloadExperienceData (Inr [[''1'', ''2000''], [''2'', ''3000'']])
       (Inr [\<lparr>column = Level, skipLength = 0\<rparr>, \<lparr>column = Experience, skipLength = 0\<rparr>]) ed =
     Inr \<lparr>levelThresholds = [2000, 3000]\<rparr>
   \<and> thresholdIndex \<lparr>levelThresholds = [2000, 3000]\<rparr> 3 = 2
   \<and> getThresholdForLevel \<lparr>levelThresholds = [2000, 3000]\<rparr> 3 = Inl OutOfBounds
   \<and> getThresholdForLevel \<lparr>levelThresholds = [2000, 3000]\<rparr> 2 = Inr 3000
   \<and> getThresholdForLevel ed 0 = Inr 0"
proof -
  have 1: "ReloadExperienceData (Inr [])
     (Inr [\<lparr>column = Level, skipLength = 0\<rparr>, \<lparr>column = Experience, skipLength = 0\<rparr>]) ed =
     Inr \<lparr>levelThresholds = []\<rparr>"
    by (simp add: ReloadExperienceData_def clear_def)
  have 2: "thresholdIndex \<lparr>levelThresholds = []\<rparr> 1 = 0
           \<and> getThresholdForLevel \<lparr>levelThresholds = []\<rparr> 1 = Inl OutOfBounds"
    by (simp add: getThresholdForLevel_def thresholdIndex_def getMaxLevel_def)
  have 3: "ReloadExperienceData (Inr [[''1'', ''2000''], [''2'', ''3000'']])
       (Inr [\<lparr>column = Level, skipLength = 0\<rparr>, \<lparr>column = Experience, skipLength = 0\<rparr>]) ed =
     Inr \<lparr>levelThresholds = [2000, 3000]\<rparr>"
    by (simp add: ReloadExperienceData_def clear_def parseInt_eval setThresholdForLevel_def)
  have 4: "thresholdIndex \<lparr>levelThresholds = [2000, 3000]\<rparr> 3 = 2
           \<and> getThresholdForLevel \<lparr>levelThresholds = [2000, 3000]\<rparr> 3 = Inl OutOfBounds
           \<and> getThresholdForLevel \<lparr>levelThresholds = [2000, 3000]\<rparr> 2 = Inr 3000"
    by (simp add: getThresholdForLevel_def thresholdIndex_def getMaxLevel_def)
  have 5: "getThresholdForLevel ed 0 = Inr 0"
    by (simp add: getThresholdForLevel_def)
  show ?thesis using 1 2 3 4 5 by (intro conjI) simp_all
qed

end
